theory Spec2Isabelle
  imports Main
begin

section \<open>Python text primitives\<close>

text \<open>
  Python \<open>str\<close> values are modelled as \<^typ>\<open>string\<close>. The character classes below are
  those of Python on ASCII text (\<open>str.isspace\<close>, \<open>str.isdigit\<close>, the \<open>re\<close> classes
  \<open>\d\<close> and \<open>\w\<close>); a character above 127 is in none of them, so the model follows the
  program exactly on ASCII text.
\<close>

definition nl :: char where
  "nl = CHR 0x0A"

definition isspace :: "char \<Rightarrow> bool" where
  "isspace c = (c = CHR '' '' \<or> c = CHR 0x09 \<or> c = CHR 0x0A \<or> c = CHR 0x0B \<or> c = CHR 0x0C
     \<or> c = CHR 0x0D \<or> c = CHR 0x1C \<or> c = CHR 0x1D \<or> c = CHR 0x1E \<or> c = CHR 0x1F)"

definition isdigit :: "char \<Rightarrow> bool" where
  "isdigit c = (c \<in> set ''0123456789'')"

definition isupper :: "char \<Rightarrow> bool" where
  "isupper c = (c \<in> set ''ABCDEFGHIJKLMNOPQRSTUVWXYZ'')"

definition islower :: "char \<Rightarrow> bool" where
  "islower c = (c \<in> set ''abcdefghijklmnopqrstuvwxyz'')"

definition isalnum :: "char \<Rightarrow> bool" where
  "isalnum c = (isdigit c \<or> isupper c \<or> islower c)"

text \<open>\<open>s.strip()\<close>: whitespace removed at both ends.\<close>

definition strip :: "string \<Rightarrow> string" where
  "strip s = rev (dropWhile isspace (rev (dropWhile isspace s)))"

text \<open>
  \<open>split_acc sep s w\<close> scans \<open>s\<close>, with \<open>w\<close> the run read so far, and returns the
  maximal runs of characters that are not separators, in order. \<open>s.split()\<close> with no
  argument is the case of whitespace separators.
\<close>

fun split_acc :: "(char \<Rightarrow> bool) \<Rightarrow> string \<Rightarrow> string \<Rightarrow> string list" where
  "split_acc sep [] w = (if w = [] then [] else [w])"
| "split_acc sep (c # s) w =
     (if sep c then (if w = [] then split_acc sep s [] else w # split_acc sep s [])
      else split_acc sep s (w @ [c]))"

definition split_ws :: "string \<Rightarrow> string list" where
  "split_ws s = split_acc isspace s []"

text \<open>\<open>sep.join(xs)\<close>.\<close>

fun str_join :: "string \<Rightarrow> string list \<Rightarrow> string" where
  "str_join sep [] = []"
| "str_join sep [x] = x"
| "str_join sep (x # y # ys) = x @ sep @ str_join sep (y # ys)"

text \<open>\<open>sub in s\<close>: \<open>sub\<close> occurs in \<open>s\<close> as a contiguous substring.\<close>

fun startswith :: "string \<Rightarrow> string \<Rightarrow> bool" where
  "startswith s [] = True"
| "startswith [] (p # ps) = False"
| "startswith (c # s) (p # ps) = (c = p \<and> startswith s ps)"

fun contains :: "string \<Rightarrow> string \<Rightarrow> bool" where
  "contains [] sub = (sub = [])"
| "contains (c # s) sub = (startswith (c # s) sub \<or> contains s sub)"

text \<open>\<open>s.replace(a, b)\<close> for a single character \<open>a\<close>.\<close>

definition replace_char :: "char \<Rightarrow> string \<Rightarrow> string \<Rightarrow> string" where
  "replace_char a b s = concat (map (\<lambda>c. if c = a then b else [c]) s)"

section \<open>Summary normalisation (\<open>safe_get_element\<close>, the \<open>atom:summary\<close> branch)\<close>

text \<open>
  \<open>re.sub(r'[\\{}$]', '', text)\<close> deletes every backslash, brace and dollar sign;
  \<open>' '.join(clean_text.split())\<close> then puts single spaces between the words.
\<close>

definition latex_special :: "char \<Rightarrow> bool" where
  "latex_special c = (c = CHR 0x5C \<or> c = CHR ''{'' \<or> c = CHR ''}'' \<or> c = CHR ''$'')"

definition re_sub_latex :: "string \<Rightarrow> string" where
  "re_sub_latex s = filter (\<lambda>c. \<not> latex_special c) s"

definition clean_summary :: "string \<Rightarrow> string" where
  "clean_summary s = str_join '' '' (split_ws (re_sub_latex s))"

section \<open>Errors\<close>

text \<open>
  An exception is a value. \<open>ValueError\<close> is what the URL parsers raise (the
  specification's \<open>MalformedQuery\<close>); \<open>ApiError msg\<close> is the
  \<open>Exception\<close> that \<open>parse_arxiv_xml\<close> raises for an error feed (the specification's
  \<open>UpstreamError\<close>), \<open>msg\<close> being the text interpolated after the message's fixed
  prefix; \<open>TypeError\<close>, \<open>AttributeError\<close> and \<open>SyntaxError\<close> are raised by the
  library calls on \<open>None\<close> and on an unknown namespace prefix.
\<close>

datatype error = ValueError | ApiError string | TypeError | AttributeError | SyntaxError

section \<open>The parsed feed: \<open>xml.etree.ElementTree\<close> elements\<close>

text \<open>
  An element has a tag (\<open>{namespace-uri}local\<close>), attributes, an optional text
  (\<open>None\<close> for an element with no content) and children in document order. The
  program reads the tree that \<open>ET.fromstring\<close> returns; that tree is the input here.
\<close>

datatype element =
  Element (tag: string) (attrib: "(string \<times> string) list") (elem_text: "string option")
    (children: "element list")

definition NS :: "(string \<times> string) list" where
  "NS = [(''atom'', ''http://www.w3.org/2005/Atom''),
         (''arxiv'', ''http://arxiv.org/schemas/atom''),
         (''opensearch'', ''http://a9.com/-/spec/opensearch/1.1/'')]"

text \<open>\<open>s.split(c)\<close> for a single character \<open>c\<close> (empty pieces are kept).\<close>

fun split_on :: "char \<Rightarrow> string \<Rightarrow> string list" where
  "split_on c [] = [[]]"
| "split_on c (x # s) =
     (if x = c then [] # split_on c s
      else (case split_on c s of [] \<Rightarrow> [[x]] | w # ws \<Rightarrow> (x # w) # ws))"

text \<open>
  The paths the program uses are prefixed tag names separated by \<open>/\<close>. A step
  \<open>prefix:local\<close> stands for the tag \<open>{uri}local\<close> with \<open>uri\<close> the prefix's entry in
  the namespace map; an unknown prefix is a \<open>SyntaxError\<close>. The rest of the path
  language (wildcards, predicates) is not used by the program and not modelled.
\<close>

definition qname :: "string \<Rightarrow> string option" where
  "qname step =
     (if CHR '':'' \<in> set step then
        (case map_of NS (takeWhile (\<lambda>c. c \<noteq> CHR '':'') step) of
           None \<Rightarrow> None
         | Some uri \<Rightarrow> Some (''{'' @ uri @ ''}'' @ tl (dropWhile (\<lambda>c. c \<noteq> CHR '':'') step)))
      else Some step)"

fun qnames :: "string list \<Rightarrow> string list option" where
  "qnames [] = Some []"
| "qnames (step # steps) =
     (case qname step of
        None \<Rightarrow> None
      | Some t \<Rightarrow> (case qnames steps of None \<Rightarrow> None | Some ts \<Rightarrow> Some (t # ts)))"

definition qualify :: "string \<Rightarrow> string list option" where
  "qualify xpath = qnames (split_on CHR ''/'' xpath)"

text \<open>
  Each step selects, for every element selected so far and in that order, its children
  with the step's tag.
\<close>

fun iterfind :: "element list \<Rightarrow> string list \<Rightarrow> element list" where
  "iterfind result [] = result"
| "iterfind result (t # steps) =
     iterfind (concat (map (\<lambda>e. filter (\<lambda>c. tag c = t) (children e)) result)) steps"

definition findall :: "element \<Rightarrow> string \<Rightarrow> error + element list" where
  "findall elem xpath =
     (case qualify xpath of
        None \<Rightarrow> Inl SyntaxError
      | Some steps \<Rightarrow> Inr (iterfind [elem] steps))"

text \<open>\<open>elem.find(xpath, NS)\<close>: the first selected element, or \<open>None\<close>.\<close>

definition find_elem :: "element \<Rightarrow> string \<Rightarrow> error + element option" where
  "find_elem elem xpath =
     (case findall elem xpath of
        Inl e \<Rightarrow> Inl e
      | Inr [] \<Rightarrow> Inr None
      | Inr (x # xs) \<Rightarrow> Inr (Some x))"

section \<open>\<open>safe_get_element\<close>\<close>

text \<open>
  Only \<open>AttributeError\<close> is caught. In the summary branch \<open>.text\<close> of a missing
  element raises it (the default is returned), but for an element whose text is
  \<open>None\<close> the call \<open>re.sub(..., text)\<close> raises \<open>TypeError\<close> before the test
  \<open>text is not None\<close> is reached. In the other branch both \<open>None.text\<close> and
  \<open>None.strip()\<close> raise \<open>AttributeError\<close>.
\<close>

definition safe_get_element :: "element \<Rightarrow> string \<Rightarrow> string \<Rightarrow> error + string" where
  "safe_get_element element xpath dflt =
     (if contains xpath ''atom:summary'' then
        (case find_elem element xpath of
           Inl e \<Rightarrow> Inl e
         | Inr None \<Rightarrow> Inr dflt
         | Inr (Some found) \<Rightarrow>
             (case elem_text found of
                None \<Rightarrow> Inl TypeError
              | Some txt \<Rightarrow> Inr (clean_summary txt)))
      else
        (case find_elem element xpath of
           Inl e \<Rightarrow> Inl e
         | Inr None \<Rightarrow> Inr dflt
         | Inr (Some found) \<Rightarrow>
             (case elem_text found of
                None \<Rightarrow> Inr dflt
              | Some txt \<Rightarrow> Inr (strip txt))))"

section \<open>Identifier pattern\<close>

text \<open>
  \<open>re.search(r'(\d{4}\.\d{5}v\d+|\d{4}\.\d{5})', s)\<close>: the leftmost position at which
  one of the two alternatives matches, the first alternative tried first, \<open>\d+\<close> taking
  every digit that follows.
\<close>

definition match_base :: "string \<Rightarrow> bool" where
  "match_base s =
     (10 \<le> length s \<and> list_all isdigit (take 4 s) \<and> s ! 4 = CHR ''.''
      \<and> list_all isdigit (take 5 (drop 5 s)))"

definition match_id :: "string \<Rightarrow> string option" where
  "match_id s =
     (if match_base s then
        (if startswith (drop 10 s) ''v'' \<and> takeWhile isdigit (drop 11 s) \<noteq> []
         then Some (take 11 s @ takeWhile isdigit (drop 11 s))
         else Some (take 10 s))
      else None)"

fun re_search_id :: "string \<Rightarrow> string option" where
  "re_search_id [] = None"
| "re_search_id (c # s) =
     (case match_id (c # s) of Some m \<Rightarrow> Some m | None \<Rightarrow> re_search_id s)"

section \<open>Dates: \<open>datetime.strptime\<close> and \<open>strftime\<close>\<close>

record datetime =
  dt_year :: nat
  dt_month :: nat
  dt_day :: nat
  dt_hour :: nat
  dt_minute :: nat
  dt_second :: nat

definition digit_of :: "char \<Rightarrow> nat" where
  "digit_of c = length (takeWhile (\<lambda>d. d \<noteq> c) ''0123456789'')"

definition digit_char :: "nat \<Rightarrow> char" where
  "digit_char d = ''0123456789'' ! d"

text \<open>\<open>int(s)\<close> for a string of digits.\<close>

definition int_of_digits :: "string \<Rightarrow> nat" where
  "int_of_digits s = foldl (\<lambda>n c. 10 * n + digit_of c) 0 s"

text \<open>\<open>str(n)\<close> for a natural number.\<close>

fun str_nat :: "nat \<Rightarrow> string" where
  "str_nat n = (if n < 10 then [digit_char n] else str_nat (n div 10) @ [digit_char (n mod 10)])"

declare str_nat.simps [simp del]

text \<open>
  The format \<open>%Y-%m-%dT%H:%M:%SZ\<close> is compiled by \<open>_strptime\<close> to the regular
  expression \<open>(\d\d\d\d)-(1[0-2]|0[1-9]|[1-9])-(3[0-1]|[1-2]\d|0[1-9]|[1-9]| [1-9])T\<close>
  \<open>(2[0-3]|[0-1]\d|\d):([0-5]\d|\d):(6[0-1]|[0-5]\d|\d)Z\<close>, matched ignoring case at the
  start of the string; the match has to end where the string ends. No field can hold
  a delimiter, so each field is the text up to the next delimiter. A one- or two-digit
  field is described by the range of its value.
\<close>

definition until :: "(char \<Rightarrow> bool) \<Rightarrow> string \<Rightarrow> (string \<times> string) option" where
  "until is_delim s =
     (case dropWhile (\<lambda>c. \<not> is_delim c) s of
        [] \<Rightarrow> None
      | d # rest \<Rightarrow> Some (takeWhile (\<lambda>c. \<not> is_delim c) s, rest))"

definition num_field :: "nat \<Rightarrow> nat \<Rightarrow> string \<Rightarrow> nat option" where
  "num_field lo hi s =
     (if (length s = 1 \<or> length s = 2) \<and> list_all isdigit s
         \<and> lo \<le> int_of_digits s \<and> int_of_digits s \<le> hi
      then Some (int_of_digits s) else None)"

definition day_field :: "string \<Rightarrow> nat option" where
  "day_field s =
     (if length s = 2 \<and> hd s = CHR '' '' \<and> isdigit (s ! 1) \<and> s ! 1 \<noteq> CHR ''0''
      then Some (digit_of (s ! 1)) else num_field 1 31 s)"

definition is_leap :: "nat \<Rightarrow> bool" where
  "is_leap y = ((y mod 4 = 0 \<and> y mod 100 \<noteq> 0) \<or> y mod 400 = 0)"

definition days_in_month :: "nat \<Rightarrow> nat \<Rightarrow> nat" where
  "days_in_month y m =
     (if m = 2 then (if is_leap y then 29 else 28)
      else if m = 4 \<or> m = 6 \<or> m = 9 \<or> m = 11 then 30 else 31)"

text \<open>
  \<open>datetime(year, month, day, hour, minute, second)\<close> raises \<open>ValueError\<close> for year
  0, for a day the month does not have, and for the seconds 60 and 61 that the pattern
  lets through.
\<close>

definition make_datetime ::
  "nat \<Rightarrow> nat \<Rightarrow> nat \<Rightarrow> nat \<Rightarrow> nat \<Rightarrow> nat \<Rightarrow> datetime option" where
  "make_datetime y mo d h mi se =
     (if 1 \<le> y \<and> y \<le> 9999 \<and> 1 \<le> mo \<and> mo \<le> 12 \<and> 1 \<le> d \<and> d \<le> days_in_month y mo
         \<and> h \<le> 23 \<and> mi \<le> 59 \<and> se \<le> 59
      then Some \<lparr>dt_year = y, dt_month = mo, dt_day = d, dt_hour = h, dt_minute = mi,
                 dt_second = se\<rparr>
      else None)"

definition is_T :: "char \<Rightarrow> bool" where
  "is_T c = (c = CHR ''T'' \<or> c = CHR ''t'')"

definition is_Z :: "char \<Rightarrow> bool" where
  "is_Z c = (c = CHR ''Z'' \<or> c = CHR ''z'')"

text \<open>
  \<open>datetime.strptime(s, '%Y-%m-%dT%H:%M:%SZ')\<close>; \<open>None\<close> stands for the
  \<open>ValueError\<close> it raises.
\<close>

definition strptime :: "string \<Rightarrow> datetime option" where
  "strptime s =
     (if 4 \<le> length s \<and> list_all isdigit (take 4 s) \<and> startswith (drop 4 s) ''-'' then
        Option.bind (until (\<lambda>c. c = CHR ''-'') (drop 5 s)) (\<lambda>(f_m, r1).
        Option.bind (until is_T r1) (\<lambda>(f_d, r2).
        Option.bind (until (\<lambda>c. c = CHR '':'') r2) (\<lambda>(f_H, r3).
        Option.bind (until (\<lambda>c. c = CHR '':'') r3) (\<lambda>(f_M, r4).
        Option.bind (until is_Z r4) (\<lambda>(f_S, r5).
        if r5 \<noteq> [] then None else
        Option.bind (num_field 1 12 f_m) (\<lambda>mo.
        Option.bind (day_field f_d) (\<lambda>d.
        Option.bind (num_field 0 23 f_H) (\<lambda>h.
        Option.bind (num_field 0 59 f_M) (\<lambda>mi.
        Option.bind (num_field 0 61 f_S) (\<lambda>se.
        make_datetime (int_of_digits (take 4 s)) mo d h mi se))))))))))
      else None)"

text \<open>
  \<open>dt.strftime(fmt)\<close> for the directives the program uses. \<open>%Y\<close> is rendered as
  documented, with four digits (the C library of some platforms does not pad a year
  below 1000); \<open>%B\<close> is the month's English name.
\<close>

definition zfill :: "nat \<Rightarrow> string \<Rightarrow> string" where
  "zfill n s = replicate (n - length s) CHR ''0'' @ s"

definition month_name :: "nat \<Rightarrow> string" where
  "month_name m =
     [''January'', ''February'', ''March'', ''April'', ''May'', ''June'', ''July'',
      ''August'', ''September'', ''October'', ''November'', ''December''] ! (m - 1)"

definition directive :: "datetime \<Rightarrow> char \<Rightarrow> string" where
  "directive dt c =
     (if c = CHR ''Y'' then zfill 4 (str_nat (dt_year dt))
      else if c = CHR ''m'' then zfill 2 (str_nat (dt_month dt))
      else if c = CHR ''d'' then zfill 2 (str_nat (dt_day dt))
      else if c = CHR ''B'' then month_name (dt_month dt)
      else if c = CHR ''%'' then ''%''
      else [CHR ''%'', c])"

fun strftime :: "datetime \<Rightarrow> string \<Rightarrow> string" where
  "strftime dt [] = []"
| "strftime dt [c] = [c]"
| "strftime dt (c # d # s) =
     (if c = CHR ''%'' then directive dt d @ strftime dt s else c # strftime dt (d # s))"

section \<open>\<open>extract_paper_data\<close>\<close>

record paper_data =
  title :: string
  summary :: string
  doi :: string
  arxiv_id :: string
  arxiv_url :: string
  authors :: "string list"
  year :: string
  submission_date :: string
  ris_date :: string
  primary_category :: "string option"
  enw_date_8 :: string

text \<open>
  The list comprehension over the author nodes: \<open>.text\<close> of a missing name node and
  \<open>.strip()\<close> of a missing text raise \<open>AttributeError\<close>, which nothing catches.
\<close>

fun author_names :: "element list \<Rightarrow> error + string list" where
  "author_names [] = Inr []"
| "author_names (author # rest) =
     (case find_elem author ''atom:name'' of
        Inl e \<Rightarrow> Inl e
      | Inr None \<Rightarrow> Inl AttributeError
      | Inr (Some n) \<Rightarrow>
          (case elem_text n of
             None \<Rightarrow> Inl AttributeError
           | Some txt \<Rightarrow>
               (case author_names rest of
                  Inl e \<Rightarrow> Inl e
                | Inr names \<Rightarrow> Inr (strip txt # names))))"

text \<open>
  The four date strings: all left empty unless the published text is non-empty and
  \<open>strptime\<close> accepts it.
\<close>

definition date_fields :: "string \<Rightarrow> string \<times> string \<times> string \<times> string" where
  "date_fields published_date_str =
     (if published_date_str \<noteq> [] then
        (case strptime published_date_str of
           Some dt \<Rightarrow>
             (str_nat (dt_year dt), strftime dt ''%Y/%m/%d/'', strftime dt ''%Y/%m/01/'',
              strftime dt ''%B %d, %Y'')
         | None \<Rightarrow> ('''', '''', '''', ''''))
      else ('''', '''', '''', ''''))"

definition then_do :: "error + 'a \<Rightarrow> ('a \<Rightarrow> error + 'b) \<Rightarrow> error + 'b" where
  "then_do m f = (case m of Inl e \<Rightarrow> Inl e | Inr x \<Rightarrow> f x)"

definition extract_paper_data :: "element \<Rightarrow> error + paper_data" where
  "extract_paper_data entry =
     then_do (safe_get_element entry ''atom:title'' '''') (\<lambda>title'.
     then_do (safe_get_element entry ''atom:id'' '''') (\<lambda>arxiv_id_url.
     then_do (safe_get_element entry ''atom:summary'' '''') (\<lambda>summary'.
     then_do (safe_get_element entry ''atom:published'' '''') (\<lambda>published_date_str.
     then_do (safe_get_element entry ''arxiv:doi'' '''') (\<lambda>doi'.
     let arxiv_id' = (case re_search_id arxiv_id_url of Some m \<Rightarrow> m | None \<Rightarrow> ''unknown'');
         arxiv_url' = ''https://arxiv.org/abs/'' @ arxiv_id'
     in
     then_do (findall entry ''atom:author'') (\<lambda>author_nodes.
     then_do (author_names author_nodes) (\<lambda>authors'.
     then_do (find_elem entry ''arxiv:primary_category'') (\<lambda>primary_category_tag.
     let primary_category' =
           (case primary_category_tag of
              Some t \<Rightarrow> map_of (attrib t) ''{http://arxiv.org/schemas/atom}term''
            | None \<Rightarrow> Some '''');
         (year', submission_date', ris_date', enw_date_8') = date_fields published_date_str
     in
     Inr \<lparr>title = title', summary = summary', doi = doi', arxiv_id = arxiv_id',
          arxiv_url = arxiv_url', authors = authors', year = year',
          submission_date = submission_date', ris_date = ris_date',
          primary_category = primary_category', enw_date_8 = enw_date_8'\<rparr>))))))))"

section \<open>Renderers\<close>

definition to_lower :: "char \<Rightarrow> char" where
  "to_lower c =
     (case map_of (zip ''ABCDEFGHIJKLMNOPQRSTUVWXYZ'' ''abcdefghijklmnopqrstuvwxyz'') c of
        Some l \<Rightarrow> l
      | None \<Rightarrow> c)"

definition to_upper :: "char \<Rightarrow> char" where
  "to_upper c =
     (case map_of (zip ''abcdefghijklmnopqrstuvwxyz'' ''ABCDEFGHIJKLMNOPQRSTUVWXYZ'') c of
        Some u \<Rightarrow> u
      | None \<Rightarrow> c)"

text \<open>
  The body of the loop of \<open>format_authors_for_bibtex\<close>: the last whitespace-separated
  token goes first.
\<close>

definition format_author :: "string \<Rightarrow> string" where
  "format_author author_name =
     (let name_parts = split_ws author_name in
      if 1 < length name_parts
      then last name_parts @ '', '' @ str_join '' '' (butlast name_parts)
      else author_name)"

definition format_authors_for_bibtex :: "string list \<Rightarrow> string" where
  "format_authors_for_bibtex authors_list =
     (if authors_list = [] then []
      else str_join '' and '' (map format_author authors_list))"

text \<open>
  \<open>re.findall(r'\b[a-zA-Z0-9]+\b', title)\<close>: a word boundary lies between a word
  character (letter, digit, underscore) and a character that is none, so the matches are
  the maximal runs of word characters that hold no underscore.
\<close>

definition is_word_char :: "char \<Rightarrow> bool" where
  "is_word_char c = (isalnum c \<or> c = CHR ''_'')"

definition re_findall_words :: "string \<Rightarrow> string list" where
  "re_findall_words s = filter (list_all isalnum) (split_acc (\<lambda>c. \<not> is_word_char c) s [])"

definition generate_bibtex_key :: "string \<Rightarrow> string \<Rightarrow> string" where
  "generate_bibtex_key title' year' =
     (let words = re_findall_words title';
          key_parts = (if words \<noteq> [] then take 2 words else [''arxiv'']);
          key = map to_lower (concat key_parts) @ year'
      in take 25 key)"

text \<open>A dictionary value used as a condition: \<open>None\<close> and the empty string are false.\<close>

definition truthy :: "string option \<Rightarrow> bool" where
  "truthy v = (case v of None \<Rightarrow> False | Some s \<Rightarrow> s \<noteq> [])"

text \<open>A value interpolated into an f-string: \<open>None\<close> prints as \<open>None\<close>.\<close>

definition py_str :: "string option \<Rightarrow> string" where
  "py_str v = (case v of None \<Rightarrow> ''None'' | Some s \<Rightarrow> s)"

text \<open>
  The text that \<open>format_to_bibtex\<close> builds in its variable \<open>bibtex_body\<close>; the last
  piece appended ends with a line feed.
\<close>

definition bibtex_body :: "paper_data \<Rightarrow> string" where
  "bibtex_body data =
     (let bibtex_authors = format_authors_for_bibtex (authors data);
          summary' = replace_char CHR ''}'' [CHR 0x5C, CHR ''}'']
                       (replace_char CHR ''{'' [CHR 0x5C, CHR ''{''] (summary data));
          body0 = [nl] @ ''title = {{'' @ title data @ ''}},'' @ [nl]
                  @ ''author = {'' @ bibtex_authors @ ''},'' @ [nl]
                  @ ''journal = {arXiv},'' @ [nl]
                  @ ''archivePrefix = {arXiv},'' @ [nl]
                  @ ''eprint = {'' @ arxiv_id data @ ''},'';
          body1 = body0 @ (if truthy (primary_category data)
                           then [nl] @ ''  primaryClass = {'' @ py_str (primary_category data) @ ''},''
                           else []);
          body2 = body1 @ (if doi data \<noteq> []
                           then [nl] @ ''  doi = {'' @ doi data @ ''},''
                           else [])
      in (body2 @ [nl] @ ''year = {'' @ year data @ ''},'' @ [nl]
          @ ''abstract = {{'' @ summary' @ ''}}'') @ [nl])"

definition format_to_bibtex :: "paper_data \<Rightarrow> string" where
  "format_to_bibtex data =
     (let bibkey = generate_bibtex_key (title data) (year data);
          bibtex_entry = [nl] @ ''@article{'' @ bibkey @ '','' @ bibtex_body data @ [nl] @ ''}''
                         @ [nl]
      in strip bibtex_entry)"

definition format_to_ris :: "paper_data \<Rightarrow> string" where
  "format_to_ris data =
     str_join [nl]
       ([''TY  - JOUR'', ''T1  - '' @ title data]
        @ map (\<lambda>author_name. ''AU  - '' @ author_name) (authors data)
        @ [''AB  - '' @ summary data]
        @ (if year data \<noteq> [] then [''PY  - '' @ year data] else [])
        @ (if submission_date data \<noteq> [] then [''DA  - '' @ submission_date data] else [])
        @ (if doi data \<noteq> [] then [''DO  - '' @ doi data] else [])
        @ [''UR  - '' @ arxiv_url data, ''JO  - arXiv'', ''PB  - arXiv'']
        @ (if truthy (primary_category data)
           then [''KW  - '' @ py_str (primary_category data)] else [])
        @ [''EP  - '' @ arxiv_id data, ''ER  - ''])"

definition format_to_enw :: "paper_data \<Rightarrow> string" where
  "format_to_enw data =
     str_join [nl]
       ([''%0 Journal Article'', ''%T '' @ title data]
        @ map (\<lambda>author_name. ''%A '' @ author_name) (authors data)
        @ (if year data \<noteq> [] then [''%Y '' @ year data] else [])
        @ (if enw_date_8 data \<noteq> [] then [''%8 '' @ enw_date_8 data] else [])
        @ [''%J arXiv'', ''%K arXiv; '' @ py_str (primary_category data)]
        @ (if doi data \<noteq> [] then [''%R '' @ doi data] else [])
        @ [''%Z arXiv:'' @ arxiv_id data, ''%U '' @ arxiv_url data,
           ''%X '' @ summary data])"

section \<open>\<open>parse_arxiv_xml\<close>\<close>

text \<open>The loop over the entries, with the list of blocks formatted so far.\<close>

fun format_entries ::
  "(paper_data \<Rightarrow> string) \<Rightarrow> element list \<Rightarrow> string list \<Rightarrow> error + string list" where
  "format_entries formatter [] formatted_entries = Inr formatted_entries"
| "format_entries formatter (entry # entries) formatted_entries =
     (case extract_paper_data entry of
        Inl e \<Rightarrow> Inl e
      | Inr data \<Rightarrow> format_entries formatter entries (formatted_entries @ [formatter data]))"

definition separator :: string where
  "separator = [nl, nl]"

text \<open>
  The argument is the parsed document. \<open>"Error" in error_tag.text\<close> raises
  \<open>TypeError\<close> when the title element has no text.
\<close>

definition parse_arxiv_xml :: "element \<Rightarrow> (paper_data \<Rightarrow> string) \<Rightarrow> error + string" where
  "parse_arxiv_xml root formatter =
     then_do (find_elem root ''atom:entry/atom:title'') (\<lambda>error_tag.
     then_do (case error_tag of
                None \<Rightarrow> Inr ()
              | Some t \<Rightarrow>
                  (case elem_text t of
                     None \<Rightarrow> Inl TypeError
                   | Some txt \<Rightarrow>
                       if contains txt ''Error'' then Inl (ApiError (strip txt)) else Inr ()))
       (\<lambda>_.
     then_do (findall root ''atom:entry'') (\<lambda>entries.
     then_do (format_entries formatter entries []) (\<lambda>formatted_entries.
     Inr (str_join separator formatted_entries)))))"

section \<open>URL parsing: \<open>urllib.parse\<close>\<close>

text \<open>
  \<open>urlparse(url).query\<close>: tabs and line breaks are dropped from the URL, the fragment
  starts at the first \<open>#\<close>, and the query is what follows the first \<open>?\<close> before it.
  (The scheme and the host are split off first and hold neither character. The
  \<open>ValueError\<close> that \<open>urlparse\<close> raises for a malformed bracketed host is outside this
  model: the host is taken to be one that \<open>urlparse\<close> accepts.)
\<close>

definition urlparse_query :: "string \<Rightarrow> string" where
  "urlparse_query url =
     (let u = filter (\<lambda>c. c \<noteq> CHR 0x09 \<and> c \<noteq> CHR 0x0A \<and> c \<noteq> CHR 0x0D) url;
          before_fragment = takeWhile (\<lambda>c. c \<noteq> CHR ''#'') u
      in if CHR ''?'' \<in> set before_fragment
         then tl (dropWhile (\<lambda>c. c \<noteq> CHR ''?'') before_fragment)
         else [])"

text \<open>
  \<open>unquote\<close>: each \<open>%XX\<close> with two hexadecimal digits becomes the byte \<open>XX\<close>; any
  other \<open>%\<close> stays. (The program's strings are Unicode; the decoded bytes are read as
  UTF-8, so the model is exact where they are valid UTF-8, ASCII in particular.)
\<close>

definition is_hex :: "char \<Rightarrow> bool" where
  "is_hex c = (c \<in> set ''0123456789abcdefABCDEF'')"

definition hex_val :: "char \<Rightarrow> nat" where
  "hex_val c =
     (if isdigit c then digit_of c
      else if c \<in> set ''abcdef'' then 10 + length (takeWhile (\<lambda>d. d \<noteq> c) ''abcdef'')
      else 10 + length (takeWhile (\<lambda>d. d \<noteq> c) ''ABCDEF''))"

definition byte_char :: "nat \<Rightarrow> char" where
  "byte_char n =
     Char (odd n) (odd (n div 2)) (odd (n div 4)) (odd (n div 8))
          (odd (n div 16)) (odd (n div 32)) (odd (n div 64)) (odd (n div 128))"

fun unquote :: "string \<Rightarrow> string" where
  "unquote (c # h1 # h2 # s) =
     (if c = CHR ''%'' \<and> is_hex h1 \<and> is_hex h2
      then byte_char (16 * hex_val h1 + hex_val h2) # unquote s
      else c # unquote (h1 # h2 # s))"
| "unquote s = s"

text \<open>
  \<open>parse_qsl\<close> with its defaults: the fields are separated by \<open>&\<close>; a field with no
  \<open>=\<close> or with nothing after its first \<open>=\<close> is dropped (\<open>keep_blank_values\<close> is
  false); in name and value \<open>+\<close> becomes a space and percent escapes are decoded.
\<close>

definition field_pair :: "string \<Rightarrow> (string \<times> string) list" where
  "field_pair name_value =
     (if CHR ''='' \<in> set name_value then
        (let name = takeWhile (\<lambda>c. c \<noteq> CHR ''='') name_value;
             val = tl (dropWhile (\<lambda>c. c \<noteq> CHR ''='') name_value)
         in if val \<noteq> []
            then [(unquote (replace_char CHR ''+'' '' '' name),
                   unquote (replace_char CHR ''+'' '' '' val))]
            else [])
      else [])"

definition parse_qsl :: "string \<Rightarrow> (string \<times> string) list" where
  "parse_qsl qs = concat (map field_pair (split_on CHR ''&'' qs))"

text \<open>
  \<open>parse_qs\<close>: a dictionary from each name to the list of its values, in the order of
  the query string. The dictionary is an association list with one entry per key.
\<close>

fun dict_append ::
  "(string \<times> string list) list \<Rightarrow> string \<Rightarrow> string \<Rightarrow> (string \<times> string list) list" where
  "dict_append [] k v = [(k, [v])]"
| "dict_append ((k', vs) # d) k v =
     (if k' = k then (k', vs @ [v]) # d else (k', vs) # dict_append d k v)"

definition parse_qs :: "string \<Rightarrow> (string \<times> string list) list" where
  "parse_qs qs = foldl (\<lambda>d (name, val). dict_append d name val) [] (parse_qsl qs)"

section \<open>Query building\<close>

definition API_FIELD_MAP :: "(string \<times> string) list" where
  "API_FIELD_MAP =
     [(''title'', ''ti''), (''author'', ''au''), (''abstract'', ''abs''),
      (''comments'', ''comm''), (''journal_ref'', ''jr''), (''acm_class'', ''acm''),
      (''msc_class'', ''msc''), (''report_num'', ''rpt''), (''paper_id'', ''id''),
      (''doi'', ''doi''), (''orcid'', ''orcid''), (''all'', ''all'')]"

text \<open>\<open>API_FIELD_MAP.get(field, 'all')\<close>.\<close>

definition api_field_of :: "string \<Rightarrow> string" where
  "api_field_of field = (case map_of API_FIELD_MAP field of Some code \<Rightarrow> code | None \<Rightarrow> ''all'')"

text \<open>\<open>d.get(key, [])\<close>.\<close>

definition get_list :: "(string \<times> string list) list \<Rightarrow> string \<Rightarrow> string list" where
  "get_list d key = (case map_of d key of Some vs \<Rightarrow> vs | None \<Rightarrow> [])"

definition parse_simple_search_url :: "string \<Rightarrow> error + string" where
  "parse_simple_search_url url =
     (let query_params = parse_qs (urlparse_query url);
          query_list = get_list query_params ''query'';
          searchtype_list = get_list query_params ''searchtype''
      in if query_list = [] \<or> searchtype_list = [] then Inl ValueError
         else
           (let raw_query = unquote (hd query_list);
                search_field = hd searchtype_list;
                api_field = api_field_of search_field
            in Inr (api_field @ '':('' @ raw_query @ '')'')))"

definition term_key :: "nat \<Rightarrow> string" where
  "term_key i = ''terms-'' @ str_nat i @ ''-term''"

definition field_key :: "nat \<Rightarrow> string" where
  "field_key i = ''terms-'' @ str_nat i @ ''-field''"

definition operator_key :: "nat \<Rightarrow> string" where
  "operator_key i = ''terms-'' @ str_nat i @ ''-operator''"

text \<open>
  The \<open>while True\<close> loop of \<open>parse_advanced_search_url\<close>, with the index and the
  parts collected so far. \<open>d.get(key)\<close> is \<open>None\<close> for a missing key; \<open>None\<close> and the
  empty list are false.
\<close>

function advanced_loop ::
  "(string \<times> string list) list \<Rightarrow> nat \<Rightarrow> string list \<Rightarrow> string list" where
  "advanced_loop query_params i complex_query_parts =
     (if map_of query_params (term_key i) = None then complex_query_parts
      else
        (case (map_of query_params (term_key i), map_of query_params (field_key i)) of
           (Some (term_value # _), Some (field_value # _)) \<Rightarrow>
             (let term' = strip (unquote term_value);
                  field = strip field_value;
                  api_field = api_field_of field;
                  term_clean = replace_char CHR ''+'' '' '' term';
                  query_part = ''('' @ api_field @ '':('' @ term_clean @ ''))'';
                  operator_part =
                    (case map_of query_params (operator_key i) of
                       Some (operator # _) \<Rightarrow> if 0 < i then [map to_upper operator] else []
                     | _ \<Rightarrow> [])
              in advanced_loop query_params (i + 1)
                   (complex_query_parts @ operator_part @ [query_part]))
         | _ \<Rightarrow> advanced_loop query_params (i + 1) complex_query_parts))"
  by pat_completeness auto
termination
proof -
  have "list_all (\<lambda>d. digit_of (digit_char d) = d) [0..<10]"
    by code_simp
  then have digit: "digit_of (digit_char d) = d" if "d < 10" for d
    using that by (simp add: list_all_iff)
  have snoc: "int_of_digits (s @ [c]) = 10 * int_of_digits s + digit_of c" for s c
    by (simp add: int_of_digits_def)
  have roundtrip: "int_of_digits (str_nat n) = n" for n
  proof (induction n rule: str_nat.induct)
    case (1 n)
    show ?case
    proof (cases "n < 10")
      case True
      then show ?thesis
        by (subst str_nat.simps) (simp add: int_of_digits_def digit)
    next
      case False
      with 1 show ?thesis
        by (subst str_nat.simps) (simp add: snoc digit)
    qed
  qed
  have inj: "inj term_key"
  proof (rule injI)
    fix i j
    assume "term_key i = term_key j"
    then have "str_nat i = str_nat j"
      by (simp add: term_key_def)
    then have "int_of_digits (str_nat i) = int_of_digits (str_nat j)"
      by simp
    then show "i = j"
      by (simp add: roundtrip)
  qed
  have dec: "card {j. Suc i \<le> j \<and> term_key j \<in> fst ` set qp}
             < card {j. i \<le> j \<and> term_key j \<in> fst ` set qp}"
    if "\<exists>y. map_of qp (term_key i) = Some y" for qp :: "(string \<times> string list) list" and i
  proof (rule psubset_card_mono)
    have "finite (term_key -` (fst ` set qp))"
      by (rule finite_vimageI[OF _ inj]) simp
    then show "finite {j. i \<le> j \<and> term_key j \<in> fst ` set qp}"
      by (rule rev_finite_subset) auto
    from that have "term_key i \<in> fst ` set qp"
      by (auto dest: map_of_SomeD intro: rev_image_eqI)
    then have "i \<in> {j. i \<le> j \<and> term_key j \<in> fst ` set qp}"
      by simp
    moreover have "i \<notin> {j. Suc i \<le> j \<and> term_key j \<in> fst ` set qp}"
      by simp
    moreover have "{j. Suc i \<le> j \<and> term_key j \<in> fst ` set qp}
               \<subseteq> {j. i \<le> j \<and> term_key j \<in> fst ` set qp}"
      by auto
    ultimately show "{j. Suc i \<le> j \<and> term_key j \<in> fst ` set qp}
               \<subset> {j. i \<le> j \<and> term_key j \<in> fst ` set qp}"
      by blast
  qed
  show ?thesis
    by (relation "measure (\<lambda>(qp, i, parts). card {j. i \<le> j \<and> term_key j \<in> fst ` set qp})")
       (simp_all add: dec)
qed

declare advanced_loop.simps [simp del]

definition parse_advanced_search_url :: "string \<Rightarrow> error + string" where
  "parse_advanced_search_url url =
     (let query_params = parse_qs (urlparse_query url);
          complex_query_parts = advanced_loop query_params 0 [];
          final_api_query = str_join '' '' complex_query_parts
      in if final_api_query = [] then Inl ValueError else Inr final_api_query)"

definition build_api_query :: "string \<Rightarrow> int \<Rightarrow> error + string" where
  "build_api_query url search_type =
     (if search_type = 1 then parse_simple_search_url url
      else if search_type = 2 then parse_advanced_search_url url
      else Inl ValueError)"

section \<open>The specification's notions\<close>

text \<open>
  The definitions of this section follow the words of the specification; the theorems
  compare the program with them.
\<close>

text \<open>
  The identifier pattern: four digits, a dot, five digits (\<open>base_shape\<close>), optionally
  followed by \<open>v\<close> and a version number (\<open>versioned_shape\<close>).
\<close>

definition base_shape :: "string \<Rightarrow> bool" where
  "base_shape m =
     (length m = 10 \<and> list_all isdigit (take 4 m) \<and> m ! 4 = CHR ''.''
      \<and> list_all isdigit (drop 5 m))"

definition versioned_shape :: "string \<Rightarrow> bool" where
  "versioned_shape m =
     (11 < length m \<and> base_shape (take 10 m) \<and> m ! 10 = CHR ''v''
      \<and> list_all isdigit (drop 11 m))"

text \<open>
  The entries of a document, the first title found among them (the title of the first
  entry that has one), and the extraction and rendering of a list of entries in document
  order, the first failure ending it.
\<close>

definition entries_of :: "element \<Rightarrow> element list" where
  "entries_of root =
     filter (\<lambda>c. tag c = ''{http://www.w3.org/2005/Atom}entry'') (children root)"

definition titles_of :: "element \<Rightarrow> element list" where
  "titles_of entry =
     filter (\<lambda>c. tag c = ''{http://www.w3.org/2005/Atom}title'') (children entry)"

definition first_title :: "element \<Rightarrow> element option" where
  "first_title root =
     (case concat (map titles_of (entries_of root)) of [] \<Rightarrow> None | t # ts \<Rightarrow> Some t)"

fun extract_all :: "element list \<Rightarrow> error + paper_data list" where
  "extract_all [] = Inr []"
| "extract_all (entry # entries) =
     (case extract_paper_data entry of
        Inl e \<Rightarrow> Inl e
      | Inr data \<Rightarrow>
          (case extract_all entries of Inl e \<Rightarrow> Inl e | Inr ds \<Rightarrow> Inr (data # ds)))"

definition render_all :: "(paper_data \<Rightarrow> string) \<Rightarrow> element list \<Rightarrow> error + string" where
  "render_all formatter entries =
     (case extract_all entries of
        Inl e \<Rightarrow> Inl e
      | Inr ds \<Rightarrow> Inr (str_join separator (map formatter ds)))"

text \<open>
  The number of blank-line separators in a document: \<open>doc.count('\n\n')\<close>, the
  occurrences of two line feeds counted from the left without overlap. A block is plain
  when it holds none and does not end with a line feed.
\<close>

fun count_sep :: "string \<Rightarrow> nat" where
  "count_sep (a # b # s) =
     (if a = nl \<and> b = nl then Suc (count_sep s) else count_sep (b # s))"
| "count_sep s = 0"

definition plain_block :: "string \<Rightarrow> bool" where
  "plain_block b = (count_sep b = 0 \<and> (b = [] \<or> last b \<noteq> nl))"




text \<open>
  Simple mode: the fields of the URL's query string as written (name and value on either
  side of the first \<open>=\<close>), and a parameter that is absent or empty: every field that
  carries its name has an empty value.
\<close>

definition decode_component :: "string \<Rightarrow> string" where
  "decode_component s = unquote (replace_char CHR ''+'' '' '' s)"

definition raw_fields :: "string \<Rightarrow> (string \<times> string) list" where
  "raw_fields qs =
     map (\<lambda>name_value. (takeWhile (\<lambda>c. c \<noteq> CHR ''='') name_value,
                         tl (dropWhile (\<lambda>c. c \<noteq> CHR ''='') name_value)))
       (split_on CHR ''&'' qs)"

definition param_absent_or_empty :: "string \<Rightarrow> string \<Rightarrow> bool" where
  "param_absent_or_empty url name =
     list_all (\<lambda>(n, v). v = [] \<or> decode_component n \<noteq> name) (raw_fields (urlparse_query url))"

section \<open>Sample inputs\<close>

definition leaf :: "string \<Rightarrow> string \<Rightarrow> element" where
  "leaf t txt = Element t [] (Some txt) []"

definition sample_entry :: element where
  "sample_entry =
     Element ''{http://www.w3.org/2005/Atom}entry'' [] None
       [leaf ''{http://www.w3.org/2005/Atom}id'' ''http://arxiv.org/abs/2310.12345v2'',
        leaf ''{http://www.w3.org/2005/Atom}published'' ''2023-10-19T17:58:01Z'',
        leaf ''{http://www.w3.org/2005/Atom}title'' ''Deep Learning Methods'',
        leaf ''{http://www.w3.org/2005/Atom}summary'' '' We study {deep}  nets. '',
        Element ''{http://www.w3.org/2005/Atom}author'' [] None
          [leaf ''{http://www.w3.org/2005/Atom}name'' ''Jane A Doe'']]"

definition sample_data :: paper_data where
  "sample_data =
     \<lparr>title = ''Deep Learning Methods'', summary = ''We study deep nets.'', doi = '''',
      arxiv_id = ''2310.12345v2'', arxiv_url = ''https://arxiv.org/abs/2310.12345v2'',
      authors = [''Jane A Doe''], year = ''2023'', submission_date = ''2023/10/19/'',
      ris_date = ''2023/10/01/'', primary_category = Some '''',
      enw_date_8 = ''October 19, 2023''\<rparr>"

definition sample_feed :: element where
  "sample_feed = Element ''{http://www.w3.org/2005/Atom}feed'' [] None [sample_entry, sample_entry]"

definition single_feed :: element where
  "single_feed = Element ''{http://www.w3.org/2005/Atom}feed'' [] None [sample_entry]"

text \<open>A summary element with no content: \<open><summary/>\<close>.\<close>

definition empty_summary_entry :: element where
  "empty_summary_entry =
     Element ''{http://www.w3.org/2005/Atom}entry'' [] None
       [leaf ''{http://www.w3.org/2005/Atom}title'' ''A Title'',
        Element ''{http://www.w3.org/2005/Atom}summary'' [] None []]"

text \<open>An error feed whose title text is padded with spaces.\<close>

definition error_feed :: element where
  "error_feed =
     Element ''{http://www.w3.org/2005/Atom}feed'' [] None
       [Element ''{http://www.w3.org/2005/Atom}entry'' [] None
          [leaf ''{http://www.w3.org/2005/Atom}title'' '' Error '']]"

text \<open>A feed whose first entry has no title and whose second entry has one.\<close>

definition untitled_first_feed :: element where
  "untitled_first_feed =
     Element ''{http://www.w3.org/2005/Atom}feed'' [] None
       [Element ''{http://www.w3.org/2005/Atom}entry'' [] None
          [leaf ''{http://www.w3.org/2005/Atom}id'' ''http://arxiv.org/abs/2310.12345v2''],
        Element ''{http://www.w3.org/2005/Atom}entry'' [] None
          [leaf ''{http://www.w3.org/2005/Atom}title'' ''Error'']]"


section \<open>Properties\<close>

subsection \<open>Text helpers\<close>

definition good_word :: "(char \<Rightarrow> bool) \<Rightarrow> string \<Rightarrow> bool" where
  "good_word sep w = (w \<noteq> [] \<and> list_all (\<lambda>c. \<not> sep c) w)"

lemma split_acc_word:
  "list_all (\<lambda>c. \<not> sep c) x \<Longrightarrow> split_acc sep (x @ r) w = split_acc sep r (w @ x)"
  by (induction x arbitrary: w) auto

lemma split_acc_good:
  "list_all (\<lambda>c. \<not> sep c) w \<Longrightarrow> list_all (good_word sep) (split_acc sep s w)"
  by (induction s arbitrary: w) (auto simp: good_word_def)

lemma split_acc_all:
  "list_all P s \<Longrightarrow> list_all P w \<Longrightarrow> list_all (list_all P) (split_acc sep s w)"
  by (induction s arbitrary: w) auto

lemma split_ws_join:
  "list_all (good_word isspace) ws \<Longrightarrow> split_ws (str_join '' '' ws) = ws"
  unfolding split_ws_def
proof (induction ws rule: induct_list012)
  case 1
  then show ?case by simp
next
  case (2 x)
  then show ?case
    using split_acc_word[of isspace x "[]" "[]"] by (simp add: good_word_def)
next
  case (3 x y ys)
  have sp: "isspace CHR '' ''"
    by (simp add: isspace_def)
  from 3 show ?case
    using split_acc_word[of isspace x "'' '' @ str_join '' '' (y # ys)" "[]"]
    by (simp add: good_word_def sp)
qed

lemma filter_join:
  "list_all (list_all P) ws \<Longrightarrow> list_all P sep \<Longrightarrow> filter P (str_join sep ws) = str_join sep ws"
  by (induction ws rule: induct_list012) (simp_all add: list_all_iff)


subsection \<open>Summary normalisation\<close>

text \<open>
  Claim C6. Summary normalisation (deleting backslash, braces and dollar sign, then
  joining the whitespace-separated words with single spaces) is idempotent: normalising
  a normalised summary gives the same text, for every string.
\<close>

theorem clean_summary_idempotent:
  "clean_summary (clean_summary s) = clean_summary s"
proof -
  define ws where "ws = split_ws (re_sub_latex s)"
  have good: "list_all (good_word isspace) ws"
    unfolding ws_def split_ws_def by (rule split_acc_good) simp
  have "list_all (\<lambda>c. \<not> latex_special c) (re_sub_latex s)"
    by (simp add: re_sub_latex_def list_all_iff)
  then have "list_all (list_all (\<lambda>c. \<not> latex_special c)) ws"
    unfolding ws_def split_ws_def by (intro split_acc_all) simp_all
  then have "re_sub_latex (str_join '' '' ws) = str_join '' '' ws"
    unfolding re_sub_latex_def by (intro filter_join) (simp_all add: latex_special_def)
  moreover have "split_ws (str_join '' '' ws) = ws"
    using good by (rule split_ws_join)
  ultimately show ?thesis
    by (simp add: clean_summary_def ws_def)
qed

subsection \<open>Record extraction\<close>

lemma then_do_Inr:
  "then_do m f = Inr y \<Longrightarrow> \<exists>x. m = Inr x \<and> f x = Inr y"
  by (cases m) (simp_all add: then_do_def)

lemma extract_paper_data_fields:
  assumes "extract_paper_data entry = Inr r"
  shows "\<exists>u p. safe_get_element entry ''atom:id'' '''' = Inr u
           \<and> safe_get_element entry ''atom:published'' '''' = Inr p
           \<and> arxiv_id r = (case re_search_id u of Some m \<Rightarrow> m | None \<Rightarrow> ''unknown'')
           \<and> arxiv_url r = ''https://arxiv.org/abs/'' @ arxiv_id r
           \<and> date_fields p = (year r, submission_date r, ris_date r, enw_date_8 r)"
  using assms unfolding extract_paper_data_def
  by (auto simp: Let_def split: prod.splits dest!: then_do_Inr)

lemma str_nat_nonempty: "str_nat n \<noteq> []"
  by (subst str_nat.simps) simp

lemma strptime_empty: "strptime [] = None"
  by (simp add: strptime_def)

lemma date_fields_Some:
  "strptime p = Some dt \<Longrightarrow>
   date_fields p = (str_nat (dt_year dt), strftime dt ''%Y/%m/%d/'', strftime dt ''%Y/%m/01/'',
              strftime dt ''%B %d, %Y'')"
  by (cases "p = []") (simp_all add: date_fields_def strptime_empty)

lemma date_fields_None:
  "strptime p = None \<Longrightarrow> date_fields p = ('''', '''', '''', '''')"
  by (simp add: date_fields_def)

lemma extract_dates:
  assumes "extract_paper_data entry = Inr r"
    and "safe_get_element entry ''atom:published'' '''' = Inr p"
  shows "(year r, submission_date r, ris_date r, enw_date_8 r) = date_fields p"
  using extract_paper_data_fields[OF assms(1)] assms(2) by auto

lemma sample_extract: "extract_paper_data sample_entry = Inr sample_data"
  by code_simp

lemma sample_published:
  "safe_get_element sample_entry ''atom:published'' '''' = Inr ''2023-10-19T17:58:01Z''"
  by code_simp

lemma sample_strptime:
  "strptime ''2023-10-19T17:58:01Z'' =
     Some \<lparr>dt_year = 2023, dt_month = 10, dt_day = 19, dt_hour = 17, dt_minute = 58,
           dt_second = 1\<rparr>"
  by code_simp

text \<open>
  Claim C1. For a record that extraction produces, with \<open>p\<close> the published text that the
  tolerant lookup returned (empty when the field is absent): either \<open>p\<close> parses in the
  fixed format and the four date fields (year, submission date, RIS date, ENW date) are
  all non-empty, or \<open>p\<close> does not parse and all four are empty.
\<close>

theorem date_fields_all_or_none:
  assumes "extract_paper_data entry = Inr r"
    and "safe_get_element entry ''atom:published'' '''' = Inr p"
  shows "(strptime p \<noteq> None \<and> year r \<noteq> [] \<and> submission_date r \<noteq> [] \<and> ris_date r \<noteq> []
            \<and> enw_date_8 r \<noteq> [])
       \<or> (strptime p = None \<and> year r = [] \<and> submission_date r = [] \<and> ris_date r = []
            \<and> enw_date_8 r = [])"
proof (cases "strptime p")
  case None
  with extract_dates[OF assms] date_fields_None[OF None] show ?thesis by simp
next
  case (Some dt)
  from extract_dates[OF assms] date_fields_Some[OF Some]
  have "year r = str_nat (dt_year dt)"
    and "submission_date r = strftime dt ''%Y/%m/%d/''"
    and "ris_date r = strftime dt ''%Y/%m/01/''"
    and "enw_date_8 r = strftime dt ''%B %d, %Y''"
    by simp_all
  with Some show ?thesis
    by (simp add: str_nat_nonempty)
qed

theorem date_fields_all_or_none_witness:
  "extract_paper_data sample_entry = Inr sample_data
   \<and> safe_get_element sample_entry ''atom:published'' '''' = Inr ''2023-10-19T17:58:01Z''
   \<and> strptime ''2023-10-19T17:58:01Z'' \<noteq> None
   \<and> year sample_data \<noteq> [] \<and> submission_date sample_data \<noteq> []
   \<and> ris_date sample_data \<noteq> [] \<and> enw_date_8 sample_data \<noteq> []"
  using date_fields_all_or_none[OF sample_extract sample_published]
    sample_extract sample_published sample_strptime
  by simp



subsection \<open>Query parameters\<close>

lemma map_of_dict_append_None:
  "map_of (dict_append d k v) k' = None \<longleftrightarrow> k' \<noteq> k \<and> map_of d k' = None"
  by (induction d k v rule: dict_append.induct) auto


lemma foldl_dict_None:
  "map_of (foldl (\<lambda>d (name, val). dict_append d name val) d ps) k = None
     \<longleftrightarrow> map_of d k = None \<and> k \<notin> fst ` set ps"
  by (induction ps arbitrary: d) (auto simp: map_of_dict_append_None)


lemma parse_qs_None: "map_of (parse_qs qs) k = None \<longleftrightarrow> k \<notin> fst ` set (parse_qsl qs)"
  by (simp add: parse_qs_def foldl_dict_None)


lemma field_pair_mem:
  "(k, v) \<in> set (field_pair nv) \<Longrightarrow>
     k = decode_component (takeWhile (\<lambda>c. c \<noteq> CHR ''='') nv)
     \<and> tl (dropWhile (\<lambda>c. c \<noteq> CHR ''='') nv) \<noteq> []"
  by (simp add: field_pair_def decode_component_def Let_def split: if_splits)

lemma absent_not_parsed:
  assumes "param_absent_or_empty url k"
  shows "k \<notin> fst ` set (parse_qsl (urlparse_query url))"
proof
  assume "k \<in> fst ` set (parse_qsl (urlparse_query url))"
  then obtain v where "(k, v) \<in> set (parse_qsl (urlparse_query url))"
    by auto
  then obtain nv where nv: "nv \<in> set (split_on CHR ''&'' (urlparse_query url))"
    and kv: "(k, v) \<in> set (field_pair nv)"
    by (auto simp: parse_qsl_def)
  from nv have "(takeWhile (\<lambda>c. c \<noteq> CHR ''='') nv, tl (dropWhile (\<lambda>c. c \<noteq> CHR ''='') nv))
                  \<in> set (raw_fields (urlparse_query url))"
    by (simp add: raw_fields_def)
  with assms have "tl (dropWhile (\<lambda>c. c \<noteq> CHR ''='') nv) = []
      \<or> decode_component (takeWhile (\<lambda>c. c \<noteq> CHR ''='') nv) \<noteq> k"
    by (auto simp: param_absent_or_empty_def list_all_iff)
  with field_pair_mem[OF kv] show False
    by simp
qed

subsection \<open>Simple mode\<close>



text \<open>
  Claim C5. For a URL in which the \<open>query\<close> parameter or the \<open>searchtype\<close> parameter
  is absent or empty, simple-mode query building fails with \<open>ValueError\<close> (the
  specification's \<open>MalformedQuery\<close>).
\<close>

theorem simple_query_missing:
  assumes "param_absent_or_empty url ''query'' \<or> param_absent_or_empty url ''searchtype''"
  shows "parse_simple_search_url url = Inl ValueError"
proof -
  from assms have "map_of (parse_qs (urlparse_query url)) ''query'' = None
      \<or> map_of (parse_qs (urlparse_query url)) ''searchtype'' = None"
    by (auto simp: parse_qs_None dest: absent_not_parsed)
  then show ?thesis
    by (auto simp: parse_simple_search_url_def Let_def get_list_def)
qed

theorem simple_query_missing_witness:
  "param_absent_or_empty ''https://arxiv.org/search/?query=&searchtype=all'' ''query''
   \<and> parse_simple_search_url ''https://arxiv.org/search/?query=&searchtype=all'' = Inl ValueError
   \<and> param_absent_or_empty ''https://arxiv.org/search/?query=graphs'' ''searchtype''
   \<and> parse_simple_search_url ''https://arxiv.org/search/?query=graphs'' = Inl ValueError"
proof -
  have a1: "param_absent_or_empty ''https://arxiv.org/search/?query=&searchtype=all'' ''query''"
    by code_simp
  have a2: "param_absent_or_empty ''https://arxiv.org/search/?query=graphs'' ''searchtype''"
    by code_simp
  from simple_query_missing[OF disjI1[OF a1]] simple_query_missing[OF disjI2[OF a2]] a1 a2
  show ?thesis by simp
qed

subsection \<open>Advanced mode\<close>

lemma digit_roundtrip: "d < 10 \<Longrightarrow> digit_of (digit_char d) = d"
proof -
  have "list_all (\<lambda>d. digit_of (digit_char d) = d) [0..<10]"
    by code_simp
  then show "d < 10 \<Longrightarrow> digit_of (digit_char d) = d"
    by (simp add: list_all_iff)
qed

lemma int_of_digits_str_nat: "int_of_digits (str_nat n) = n"
proof (induction n rule: str_nat.induct)
  case (1 n)
  have snoc: "int_of_digits (s @ [c]) = 10 * int_of_digits s + digit_of c" for s c
    by (simp add: int_of_digits_def)
  show ?case
  proof (cases "n < 10")
    case True
    then show ?thesis
      by (subst str_nat.simps) (simp add: int_of_digits_def digit_roundtrip)
  next
    case False
    with 1 show ?thesis
      by (subst str_nat.simps) (simp add: snoc digit_roundtrip)
  qed
qed

lemma inj_term_key: "inj term_key"
proof (rule injI)
  fix i j
  assume "term_key i = term_key j"
  then have "int_of_digits (str_nat i) = int_of_digits (str_nat j)"
    by (simp add: term_key_def)
  then show "i = j"
    by (simp add: int_of_digits_str_nat)
qed

text \<open>The loop always reaches an index whose term is absent.\<close>

lemma stop_index_exists:
  "\<exists>n. map_of qp (term_key n) = None \<and> (\<forall>j<n. map_of qp (term_key j) \<noteq> None)"
proof -
  have "finite (term_key -` (fst ` set qp))"
    by (rule finite_vimageI[OF _ inj_term_key]) simp
  then obtain m where "m \<notin> term_key -` (fst ` set qp)"
    using ex_new_if_finite[OF infinite_UNIV_nat] by blast
  then have ex: "map_of qp (term_key m) = None"
    by (simp add: map_of_eq_None_iff)
  define n where "n = (LEAST n. map_of qp (term_key n) = None)"
  have "map_of qp (term_key n) = None"
    unfolding n_def using ex by (rule LeastI)
  moreover have "\<forall>j<n. map_of qp (term_key j) \<noteq> None"
    unfolding n_def using not_less_Least by blast
  ultimately show ?thesis by blast
qed








subsection \<open>Identifier extraction\<close>

lemma startswith_v: "startswith s ''v'' \<longleftrightarrow> s \<noteq> [] \<and> hd s = CHR ''v''"
  by (cases s) auto

lemma match_base_take: "match_base s \<Longrightarrow> base_shape (take 10 s)"
  by (simp add: match_base_def base_shape_def min_def drop_take)

lemma match_id_shape:
  assumes "match_id s = Some m"
  shows "(base_shape m \<or> versioned_shape m) \<and> (\<exists>post. s = m @ post)"
proof (cases "startswith (drop 10 s) ''v'' \<and> takeWhile isdigit (drop 11 s) \<noteq> []")
  case False
  with assms have mb: "match_base s" and m: "m = take 10 s"
    by (auto simp: match_id_def split: if_splits)
  from m have "s = m @ drop 10 s" by simp
  with match_base_take[OF mb] m show ?thesis by blast
next
  case True
  with assms have mb: "match_base s"
    and m: "m = take 11 s @ takeWhile isdigit (drop 11 s)"
    by (auto simp: match_id_def split: if_splits)
  from True have len: "10 < length s" and v: "s ! 10 = CHR ''v''"
    by (auto simp: startswith_v hd_drop_conv_nth)
  from len have l11: "length (take 11 s) = 11" by simp
  have t10: "take 10 m = take 10 s"
    using len by (simp add: m min_def)
  have n10: "m ! 10 = s ! 10"
    using len by (simp add: m nth_append)
  have "list_all isdigit (takeWhile isdigit (drop 11 s))"
    unfolding list_all_iff by (blast dest: set_takeWhileD)
  then have d11: "list_all isdigit (drop 11 m)"
    using l11 by (simp add: m)
  have l: "11 < length m"
    using True l11 by (simp add: m)
  have "versioned_shape m"
    unfolding versioned_shape_def using match_base_take[OF mb] v t10 n10 d11 l by simp
  moreover have "s = m @ dropWhile isdigit (drop 11 s)"
    by (simp add: m)
  ultimately show ?thesis by blast
qed

lemma re_search_id_Some:
  "re_search_id u = Some m \<Longrightarrow>
     (base_shape m \<or> versioned_shape m) \<and> (\<exists>pre post. u = pre @ m @ post)"
proof (induction u)
  case Nil
  then show ?case by simp
next
  case (Cons c s)
  show ?case
  proof (cases "match_id (c # s)")
    case None
    with Cons obtain pre post where "(base_shape m \<or> versioned_shape m)" "s = pre @ m @ post"
      by auto
    then have "c # s = (c # pre) @ m @ post" by simp
    with \<open>base_shape m \<or> versioned_shape m\<close> show ?thesis by blast
  next
    case (Some m')
    with Cons.prems have "m' = m" by simp
    with match_id_shape[OF Some] obtain post where "(base_shape m \<or> versioned_shape m)"
      "c # s = [] @ m @ post"
      by auto
    then show ?thesis by blast
  qed
qed

lemma base_shape_match: "base_shape m \<Longrightarrow> match_id (m @ post) \<noteq> None"
  by (simp add: base_shape_def match_id_def match_base_def nth_append)

lemma match_id_search: "match_id s \<noteq> None \<Longrightarrow> re_search_id s \<noteq> None"
  by (cases s) (auto simp: match_id_def match_base_def)

lemma re_search_id_None:
  "re_search_id u = None \<Longrightarrow> u = pre @ m @ post \<Longrightarrow> \<not> base_shape m"
proof (induction pre arbitrary: u)
  case Nil
  then show ?case
    using match_id_search[OF base_shape_match, of m post] by auto
next
  case (Cons c pre)
  then have "re_search_id (pre @ m @ post) = None"
    by (auto split: option.splits)
  then show ?case
    by (rule Cons.IH) simp
qed

lemma re_search_id_example:
  assumes "list_all (\<lambda>c. \<not> isdigit c) pre"
    and "post = [] \<or> \<not> isdigit (hd post)"
  shows "re_search_id (pre @ ''2310.12345v2'' @ post) = Some ''2310.12345v2''"
  using assms(1)
proof (induction pre)
  case Nil
  have "takeWhile isdigit post = []"
    using assms(2) by (cases post) auto
  then show ?case
    by (simp add: match_id_def match_base_def isdigit_def)
next
  case (Cons c pre)
  then have "match_id (c # pre @ ''2310.12345v2'' @ post) = None"
    by (simp add: match_id_def match_base_def)
  with Cons show ?case by simp
qed

lemma sample_id:
  "safe_get_element sample_entry ''atom:id'' '''' = Inr ''http://arxiv.org/abs/2310.12345v2''"
  by code_simp

text \<open>
  Claim C9. With \<open>u\<close> the id-URL text of an entry and \<open>r\<close> its record: the identifier
  is the text matched in \<open>u\<close> by the pattern (four digits, a dot, five digits,
  optionally \<open>v\<close> and a version number), which is a part of \<open>u\<close> of that shape, or the
  sentinel \<open>unknown\<close> when no part of \<open>u\<close> has the shape; the canonical URL is
  \<open>https://arxiv.org/abs/\<close> followed by the identifier. In particular a \<open>u\<close> that holds
  \<open>2310.12345v2\<close> after digit-free text (as in \<open>http://arxiv.org/abs/2310.12345v2\<close>)
  and not followed by a further digit gives the identifier \<open>2310.12345v2\<close> and the URL
  \<open>https://arxiv.org/abs/2310.12345v2\<close>.
\<close>

theorem arxiv_id_pattern:
  assumes "extract_paper_data entry = Inr r"
    and "safe_get_element entry ''atom:id'' '''' = Inr u"
  shows "arxiv_id r = (case re_search_id u of Some m \<Rightarrow> m | None \<Rightarrow> ''unknown'')
     \<and> arxiv_url r = ''https://arxiv.org/abs/'' @ arxiv_id r
     \<and> (\<forall>m. re_search_id u = Some m \<longrightarrow>
           (base_shape m \<or> versioned_shape m) \<and> (\<exists>pre post. u = pre @ m @ post))
     \<and> (re_search_id u = None \<longrightarrow> (\<forall>pre m post. u = pre @ m @ post \<longrightarrow> \<not> base_shape m))
     \<and> (\<forall>pre post. u = pre @ ''2310.12345v2'' @ post \<and> list_all (\<lambda>c. \<not> isdigit c) pre
             \<and> (post = [] \<or> \<not> isdigit (hd post)) \<longrightarrow>
           arxiv_id r = ''2310.12345v2''
           \<and> arxiv_url r = ''https://arxiv.org/abs/2310.12345v2'')"
proof -
  from extract_paper_data_fields[OF assms(1)] assms(2)
  have id: "arxiv_id r = (case re_search_id u of Some m \<Rightarrow> m | None \<Rightarrow> ''unknown'')"
    and url: "arxiv_url r = ''https://arxiv.org/abs/'' @ arxiv_id r"
    by auto
  have ex: "arxiv_id r = ''2310.12345v2'' \<and> arxiv_url r = ''https://arxiv.org/abs/2310.12345v2''"
    if "u = pre @ ''2310.12345v2'' @ post" "list_all (\<lambda>c. \<not> isdigit c) pre"
      "post = [] \<or> \<not> isdigit (hd post)" for pre post
    using re_search_id_example[OF that(2,3)] that(1) id url by simp
  show ?thesis
    using id url re_search_id_Some[of u] re_search_id_None[of u] ex by blast
qed

theorem arxiv_id_pattern_witness:
  "safe_get_element sample_entry ''atom:id'' '''' = Inr ''http://arxiv.org/abs/2310.12345v2''
   \<and> arxiv_id sample_data = ''2310.12345v2''
   \<and> arxiv_url sample_data = ''https://arxiv.org/abs/2310.12345v2''
   \<and> versioned_shape (arxiv_id sample_data)"
proof -
  have split: "''http://arxiv.org/abs/2310.12345v2'' = ''http://arxiv.org/abs/'' @ ''2310.12345v2'' @ []"
    by simp
  have pre: "list_all (\<lambda>c. \<not> isdigit c) ''http://arxiv.org/abs/''"
    by code_simp
  have shape: "versioned_shape ''2310.12345v2''"
    by code_simp
  from arxiv_id_pattern[OF sample_extract sample_id] split pre
  have "arxiv_id sample_data = ''2310.12345v2''
        \<and> arxiv_url sample_data = ''https://arxiv.org/abs/2310.12345v2''"
    by blast
  with sample_id shape show ?thesis by simp
qed

subsection \<open>Tolerant field lookup\<close>

text \<open>
  Outside the summary branch the lookup never raises: it returns the stripped text, or
  the default when the element or its text is missing.
\<close>

lemma safe_get_element_total:
  assumes "\<not> contains xpath ''atom:summary''"
    and "qualify xpath \<noteq> None"
  shows "\<exists>s. safe_get_element element xpath dflt = Inr s"
  using assms
  by (auto simp: safe_get_element_def find_elem_def findall_def
           split: option.splits list.splits sum.splits)

lemma safe_get_element_summary_no_text:
  assumes "find_elem element ''atom:summary'' = Inr (Some found)"
    and "elem_text found = None"
  shows "safe_get_element element ''atom:summary'' dflt = Inl TypeError"
proof -
  have "contains ''atom:summary'' ''atom:summary''"
    by code_simp
  with assms show ?thesis
    by (simp add: safe_get_element_def)
qed

text \<open>
  Claim C2 (the lookup never fails the record, also for a field element that carries no
  text). The summary lookup on an entry whose summary element has no text raises
  \<open>TypeError\<close>, and extraction of that entry fails with it: \<open>re.sub\<close> is applied to
  the text before the test \<open>text is not None\<close>.
\<close>

theorem summary_without_text_raises:
  "safe_get_element empty_summary_entry ''atom:summary'' '''' = Inl TypeError
   \<and> extract_paper_data empty_summary_entry = Inl TypeError
   \<and> safe_get_element empty_summary_entry ''atom:title'' '''' = Inr ''A Title''"
  by code_simp

subsection \<open>Parsing a response document\<close>

lemma find_first_title: "find_elem root ''atom:entry/atom:title'' = Inr (first_title root)"
proof -
  have q: "qualify ''atom:entry/atom:title''
          = Some [''{http://www.w3.org/2005/Atom}entry'', ''{http://www.w3.org/2005/Atom}title'']"
    by code_simp
  have t: "titles_of = (\<lambda>e. filter (\<lambda>c. tag c = ''{http://www.w3.org/2005/Atom}title'')
             (children e))"
    by (rule ext) (simp add: titles_of_def)
  have "findall root ''atom:entry/atom:title'' = Inr (concat (map titles_of (entries_of root)))"
    by (simp add: findall_def q t entries_of_def)
  moreover have "(case xs of [] \<Rightarrow> Inr None | x # ys \<Rightarrow> Inr (Some x))
                 = (Inr (case xs of [] \<Rightarrow> None | x # ys \<Rightarrow> Some x) :: error + element option)"
    for xs :: "element list"
    by (cases xs) simp_all
  ultimately show ?thesis
    by (simp only: find_elem_def first_title_def sum.case)
qed

lemma findall_entries: "findall root ''atom:entry'' = Inr (entries_of root)"
proof -
  have "qualify ''atom:entry'' = Some [''{http://www.w3.org/2005/Atom}entry'']"
    by code_simp
  then show ?thesis
    by (simp add: findall_def entries_of_def)
qed

lemma format_entries_extract_all:
  "format_entries formatter entries acc =
     (case extract_all entries of Inl e \<Rightarrow> Inl e | Inr ds \<Rightarrow> Inr (acc @ map formatter ds))"
  by (induction entries arbitrary: acc) (auto split: sum.splits)

lemma parse_arxiv_xml_proceeds:
  assumes "first_title root = None
           \<or> (\<exists>t txt. first_title root = Some t \<and> elem_text t = Some txt
                \<and> \<not> contains txt ''Error'')"
  shows "parse_arxiv_xml root formatter = render_all formatter (entries_of root)"
  using assms
  by (auto simp: parse_arxiv_xml_def then_do_def find_first_title findall_entries
           format_entries_extract_all render_all_def split: sum.splits)

lemma parse_arxiv_xml_error:
  assumes "first_title root = Some t" and "elem_text t = Some txt" and "contains txt ''Error''"
  shows "parse_arxiv_xml root formatter = Inl (ApiError (strip txt))"
  using assms
  by (simp add: parse_arxiv_xml_def then_do_def find_first_title)

text \<open>
  Claim C8, as stated, fails: the error carries the title text stripped of surrounding
  whitespace, not verbatim (first feed), and the title that is tested is the first one
  found among the entries, so a feed whose first entry has no title fails on the title
  of a later entry instead of proceeding (second feed).
\<close>

theorem upstream_error_counterexample:
  "first_title error_feed = Some (leaf ''{http://www.w3.org/2005/Atom}title'' '' Error '')
   \<and> parse_arxiv_xml error_feed format_to_ris = Inl (ApiError ''Error'')
   \<and> parse_arxiv_xml error_feed format_to_ris \<noteq> Inl (ApiError '' Error '')
   \<and> titles_of (hd (entries_of untitled_first_feed)) = []
   \<and> parse_arxiv_xml untitled_first_feed format_to_ris = Inl (ApiError ''Error'')
   \<and> parse_arxiv_xml untitled_first_feed format_to_ris
       \<noteq> render_all format_to_ris (entries_of untitled_first_feed)"
  by code_simp

text \<open>
  Claim C8, amended. Let the tested title be the first title element found among the
  document's entries (the title of the first entry that has one). If its text contains
  \<open>Error\<close>, extraction fails with the error that carries that text stripped of
  surrounding whitespace, and no record is produced. If no entry has a title, or the
  tested title has a text that does not contain \<open>Error\<close>, extraction proceeds over all
  entries in document order: the result is the blocks of the entries joined by the
  separator, or the failure of the first entry whose extraction fails.
\<close>

theorem upstream_error_stripped:
  "(\<forall>t txt. first_title root = Some t \<and> elem_text t = Some txt \<and> contains txt ''Error''
      \<longrightarrow> parse_arxiv_xml root formatter = Inl (ApiError (strip txt)))
   \<and> (first_title root = None
        \<or> (\<exists>t txt. first_title root = Some t \<and> elem_text t = Some txt
              \<and> \<not> contains txt ''Error'')
      \<longrightarrow> parse_arxiv_xml root formatter = render_all formatter (entries_of root))"
  using parse_arxiv_xml_error parse_arxiv_xml_proceeds by blast

theorem upstream_error_stripped_witness:
  "parse_arxiv_xml error_feed format_to_enw = Inl (ApiError (strip '' Error ''))
   \<and> parse_arxiv_xml sample_feed format_to_enw = render_all format_to_enw (entries_of sample_feed)
   \<and> extract_all (entries_of sample_feed) = Inr [sample_data, sample_data]"
proof -
  have e1: "first_title error_feed = Some (leaf ''{http://www.w3.org/2005/Atom}title'' '' Error '')"
    by code_simp
  have e2: "elem_text (leaf ''{http://www.w3.org/2005/Atom}title'' '' Error '') = Some '' Error ''"
    by (simp add: leaf_def)
  have e3: "contains '' Error '' ''Error''"
    by code_simp
  have s1: "first_title sample_feed
              = Some (leaf ''{http://www.w3.org/2005/Atom}title'' ''Deep Learning Methods'')"
    by code_simp
  have s2: "elem_text (leaf ''{http://www.w3.org/2005/Atom}title'' ''Deep Learning Methods'')
              = Some ''Deep Learning Methods''"
    by (simp add: leaf_def)
  have s3: "\<not> contains ''Deep Learning Methods'' ''Error''"
    by code_simp
  have s4: "extract_all (entries_of sample_feed) = Inr [sample_data, sample_data]"
    by code_simp
  from upstream_error_stripped[of error_feed format_to_enw] e1 e2 e3
  have "parse_arxiv_xml error_feed format_to_enw = Inl (ApiError (strip '' Error ''))"
    by blast
  moreover from upstream_error_stripped[of sample_feed format_to_enw] s1 s2 s3
  have "parse_arxiv_xml sample_feed format_to_enw
          = render_all format_to_enw (entries_of sample_feed)"
    by blast
  ultimately show ?thesis using s4 by simp
qed

end
